theory Spec2Isabelle
  imports Complex_Main
begin

section \<open>Data model of main.py\<close>

text \<open>
  Python floats are modelled as the real numbers: every arithmetic operation of the
  source is the exact operation on \<open>real\<close>, so rounding, overflow and NaN are outside
  this model. Python integers are \<open>int\<close>.
\<close>

text \<open>
  The three module-level names read by \<open>estimar_massa\<close> (main.py, lines 9 to 11).
  They are ordinary rebindable globals, so they live in a record that is passed to
  whatever reads them.
\<close>

record globals =
  DENSIDADE_MADEIRA :: real
  COMPRIMENTO_TORA :: real
  FATOR_CONVERSAO :: real

text \<open>
  One element of \<open>resultados[0].boxes\<close>: \<open>det.xyxy[0]\<close> (four floating point
  coordinates) and \<open>det.conf.item()\<close>.
\<close>

record det =
  xyxy :: "real \<times> real \<times> real \<times> real"
  conf :: real

text \<open>The dictionary appended to \<open>previsoes\<close> (lines 38 to 43).\<close>

record previsao =
  bbox :: "int list"
  diametro_m :: real
  massa_kg :: real
  confianca :: real

text \<open>
  The drawing functions of the external library cv2, taken as parameters. The font
  and line type arguments are constants of the library and are left out; the other
  arguments are passed as the source passes them.
\<close>

record 'img cv2 =
  rectangle :: "'img \<Rightarrow> int \<times> int \<Rightarrow> int \<times> int \<Rightarrow> nat \<times> nat \<times> nat \<Rightarrow> int \<Rightarrow> 'img"
  getTextSize :: "string \<Rightarrow> real \<Rightarrow> int \<Rightarrow> int \<times> int"
  putText :: "'img \<Rightarrow> string \<Rightarrow> int \<times> int \<Rightarrow> real \<Rightarrow> nat \<times> nat \<times> nat \<Rightarrow> int \<Rightarrow> 'img"

section \<open>estimar_massa\<close>

text \<open>Python's \<open>int\<close> on a float truncates toward zero.\<close>

definition py_int :: "real \<Rightarrow> int" where
  "py_int x = (if 0 \<le> x then \<lfloor>x\<rfloor> else \<lceil>x\<rceil>)"

text \<open>Line 28: \<open>x1, y1, x2, y2 = map(int, det.xyxy[0].cpu().numpy())\<close>.\<close>

definition caixa :: "det \<Rightarrow> int \<times> int \<times> int \<times> int" where
  "caixa d = (case xyxy d of (a, b, c, e) \<Rightarrow> (py_int a, py_int b, py_int c, py_int e))"

text \<open>
  Lines 31 to 35: the five local variables \<open>largura_px\<close>, \<open>diametro_m\<close>,
  \<open>raio\<close>, \<open>volume\<close> and \<open>massa_kg\<close>, in this order.
\<close>

definition calculo :: "globals \<Rightarrow> int \<Rightarrow> int \<Rightarrow> int \<times> real \<times> real \<times> real \<times> real" where
  "calculo g x1 x2 =
    (let largura_px = x2 - x1;
         diametro = real_of_int largura_px * FATOR_CONVERSAO g;
         raio = diametro / 2;
         volume = pi * (raio ^ 2) * COMPRIMENTO_TORA g;
         massa = DENSIDADE_MADEIRA g * volume
     in (largura_px, diametro, raio, volume, massa))"

text \<open>
  The body of the \<open>for\<close> loop (lines 27 to 75), on the pair of the two variables the
  loop updates: \<open>imagem_anotada\<close> and \<open>previsoes\<close>. The parameter \<open>fmt\<close> is
  Python's fixed-point formatting: \<open>fmt n x\<close> stands for \<open>f"{x:.nf}"\<close>.
\<close>

definition passo ::
  "'img cv2 \<Rightarrow> (nat \<Rightarrow> real \<Rightarrow> string) \<Rightarrow> globals \<Rightarrow> 'img \<times> previsao list \<Rightarrow> det
     \<Rightarrow> 'img \<times> previsao list" where
  "passo cv fmt g st d =
    (let (imagem_anotada, previsoes) = st;
         (x1, y1, x2, y2) = caixa d;
         (largura_px, diametro, raio, volume, massa) = calculo g x1 x2;
         previsoes1 = previsoes @
           [\<lparr>bbox = [x1, y1, x2, y2], diametro_m = diametro, massa_kg = massa,
             confianca = conf d\<rparr>];
         img1 = rectangle cv imagem_anotada (x1, y1) (x2, y2) (0, 255, 0) 2;
         texto = fmt 1 massa @ ''kg | '' @ fmt 2 diametro @ ''m | '' @ fmt 2 (conf d);
         (largura_texto, altura_texto) = getTextSize cv texto 0.6 1;
         img2 = rectangle cv img1 (x1, y1 - altura_texto - 10) (x1 + largura_texto, y1)
                  (0, 255, 0) (- 1);
         img3 = putText cv img2 texto (x1, y1 - 5) 0.6 (0, 0, 0) 1
     in (img3, previsoes1))"

text \<open>The \<open>for\<close> loop over \<open>resultados[0].boxes\<close> (line 26).\<close>

fun laco ::
  "'img cv2 \<Rightarrow> (nat \<Rightarrow> real \<Rightarrow> string) \<Rightarrow> globals \<Rightarrow> 'img \<times> previsao list \<Rightarrow> det list
     \<Rightarrow> 'img \<times> previsao list" where
  "laco cv fmt g st [] = st"
| "laco cv fmt g st (d # ds) = laco cv fmt g (passo cv fmt g st d) ds"

text \<open>
  \<open>estimar_massa\<close> (lines 18 to 77). The detector is external: \<open>modelo imagem\<close>
  stands for \<open>carregar_modelo()(imagem)[0].boxes\<close>. \<open>imagem.copy()\<close> is the same
  pixel array as a fresh object, which for values is the identity.
\<close>

definition estimar_massa ::
  "'img cv2 \<Rightarrow> (nat \<Rightarrow> real \<Rightarrow> string) \<Rightarrow> ('img \<Rightarrow> det list) \<Rightarrow> globals \<Rightarrow> 'img
     \<Rightarrow> 'img \<times> previsao list" where
  "estimar_massa cv fmt modelo g imagem =
    (let resultados = modelo imagem;
         imagem_anotada = imagem;
         previsoes = []
     in laco cv fmt g (imagem_anotada, previsoes) resultados)"

section \<open>The script around it\<close>

text \<open>
  What \<open>st.selectbox\<close> returns (lines 147 to 150): one of the three options. The
  number input (lines 153 to 158) exists only under the third option; the widget
  keeps its value between 100 and 1000.
\<close>

datatype selecao = Pinho | Carvalho | Personalizado int

text \<open>
  One run of the script, top to bottom. Streamlit runs the whole script again at
  every interaction; \<open>g\<close> is whatever the module globals held before the run. Lines 9
  to 11 bind the three constants, lines 88 to 98 call \<open>estimar_massa\<close> when a file
  was uploaded, and only then lines 147 to 161 rebind \<open>DENSIDADE_MADEIRA\<close>. The
  result is the globals after the run and what the call returned.
\<close>

definition script ::
  "'img cv2 \<Rightarrow> (nat \<Rightarrow> real \<Rightarrow> string) \<Rightarrow> ('img \<Rightarrow> det list) \<Rightarrow> globals \<Rightarrow> 'img option
     \<Rightarrow> selecao \<Rightarrow> globals \<times> ('img \<times> previsao list) option" where
  "script cv fmt modelo g arquivo tipo_madeira =
    (let g1 = g\<lparr>DENSIDADE_MADEIRA := 600\<rparr>;
         g2 = g1\<lparr>COMPRIMENTO_TORA := 2.0\<rparr>;
         g3 = g2\<lparr>FATOR_CONVERSAO := 0.002\<rparr>;
         saida = (case arquivo of
                    None \<Rightarrow> None
                  | Some imagem \<Rightarrow> Some (estimar_massa cv fmt modelo g3 imagem));
         g4 = (case tipo_madeira of
                 Personalizado densidade_personalizada \<Rightarrow>
                   g3\<lparr>DENSIDADE_MADEIRA := real_of_int densidade_personalizada\<rparr>
               | Pinho \<Rightarrow> g3\<lparr>DENSIDADE_MADEIRA := 500\<rparr>
               | Carvalho \<Rightarrow> g3\<lparr>DENSIDADE_MADEIRA := 700\<rparr>)
     in (g4, saida))"

section \<open>Names used in the statements\<close>

text \<open>The width in pixels that the loop body computes for a detection (lines 28 and 31).\<close>

definition largura :: "det \<Rightarrow> int" where
  "largura d = (case caixa d of (x1, y1, x2, y2) \<Rightarrow> x2 - x1)"

text \<open>The dictionary that the loop body appends for a detection (lines 28 to 43).\<close>

definition previsao_de :: "globals \<Rightarrow> det \<Rightarrow> previsao" where
  "previsao_de g d =
    (case caixa d of (x1, y1, x2, y2) \<Rightarrow>
       case calculo g x1 x2 of (largura_px, diametro, raio, volume, massa) \<Rightarrow>
         \<lparr>bbox = [x1, y1, x2, y2], diametro_m = diametro, massa_kg = massa,
          confianca = conf d\<rparr>)"

text \<open>
  The closed-form model in the words of the specification (section 4.1, steps 1 to 5),
  for a box with integer corners, a conversion factor and a density; the log length is
  the fixed 2.0 metres. The Measurement keeps the diameter, the mass, the confidence
  and the box.
\<close>

definition spec_measurement :: "real \<Rightarrow> real \<Rightarrow> int \<times> int \<times> int \<times> int \<Rightarrow> real \<Rightarrow> previsao" where
  "spec_measurement pixels_to_meters_factor wood_density_kg_per_m3 box confidence =
    (case box of (x1, y1, x2, y2) \<Rightarrow>
      (let width_px = x2 - x1;
           diameter_m = real_of_int width_px * pixels_to_meters_factor;
           radius_m = diameter_m / 2;
           volume_m3 = pi * radius_m\<^sup>2 * 2.0;
           mass_kg = wood_density_kg_per_m3 * volume_m3
       in \<lparr>bbox = [x1, y1, x2, y2], diametro_m = diameter_m, massa_kg = mass_kg,
           confianca = confidence\<rparr>))"

section \<open>Concrete inputs\<close>

text \<open>The three constants as lines 9 to 11 bind them.\<close>

definition constantes :: globals where
  "constantes = \<lparr>DENSIDADE_MADEIRA = 600, COMPRIMENTO_TORA = 2.0, FATOR_CONVERSAO = 0.002\<rparr>"

text \<open>
  A stand-in for cv2 on a toy image type: the image is the list of the points handed to
  the drawing calls, newest first, so that every drawing call changes it.
\<close>

definition cv_ex :: "(int \<times> int) list cv2" where
  "cv_ex = \<lparr>rectangle = (\<lambda>img p q cor esp. q # p # img),
            getTextSize = (\<lambda>texto escala esp. (int (length texto) * 11, 13)),
            putText = (\<lambda>img texto org escala cor esp. org # img)\<rparr>"

definition fmt_ex :: "nat \<Rightarrow> real \<Rightarrow> string" where
  "fmt_ex n x = ''0.'' @ replicate n (CHR ''0'')"

definition img_ex :: "(int \<times> int) list" where
  "img_ex = []"

definition img_pintada :: "(int \<times> int) list" where
  "img_pintada = [(3, 4)]"

text \<open>A detector that reports the given boxes whatever the image.\<close>

definition modelo_ex :: "det list \<Rightarrow> 'img \<Rightarrow> det list" where
  "modelo_ex ds imagem = ds"

text \<open>The box of Scenario 1, a box of width zero and a box of negative width.\<close>

definition det_ex :: det where
  "det_ex = \<lparr>xyxy = (100, 100, 200, 150), conf = 0.9\<rparr>"

definition det_zero :: det where
  "det_zero = \<lparr>xyxy = (100, 100, 100, 150), conf = 0.9\<rparr>"

definition det_neg :: det where
  "det_neg = \<lparr>xyxy = (200, 100, 100, 150), conf = 0.9\<rparr>"

text \<open>A box twice as wide as the box of Scenario 1.\<close>

definition det_largo :: det where
  "det_largo = \<lparr>xyxy = (100, 100, 300, 150), conf = 0.8\<rparr>"

section \<open>Bounds on pi\<close>

lemma sum7: "(\<Sum>m<7. f m) = f 0 + f 1 + f 2 + f 3 + f 4 + f 5 + (f (6::nat) :: real)"
  by (simp add: eval_nat_numeral)

lemma sin_coeffs:
  "sin_coeff (Suc 0) = 1" "sin_coeff 2 = 0" "sin_coeff 3 = - 1 / 6"
  "sin_coeff 4 = 0" "sin_coeff 5 = 1 / 120" "sin_coeff 6 = 0"
  by (simp_all add: sin_coeff_def fact_numeral)

lemma sin_poly7: "(\<Sum>m<7. sin_coeff m * x ^ m) = x - x^3/6 + x^5/120"
  by (simp add: sum7 sin_coeffs)

lemma fact7v: "(fact 7 :: real) = 5040"
  by (simp add: fact_numeral)

lemma fact7: "inverse (fact 7) * y = y / (5040::real)"
  by (simp add: fact7v)

lemma sin_taylor:
  fixes x :: real
  shows "\<bar>sin x - (x - x^3/6 + x^5/120)\<bar> \<le> \<bar>x\<bar>^7/5040"
  using Maclaurin_sin_bound [of x 7] by (simp only: sin_poly7 fact7)

lemma sin_upper:
  fixes x :: real
  assumes "0 \<le> x"
  shows "sin x \<le> x - x^3/6 + x^5/120 + x^7/5040"
  using sin_taylor [of x] assms by (simp only: abs_of_nonneg)

lemma sin_lower:
  fixes x :: real
  assumes "0 \<le> x"
  shows "x - x^3/6 + x^5/120 - x^7/5040 \<le> sin x"
  using sin_taylor [of x] assms by (simp only: abs_of_nonneg)

lemma pi_lower_aux:
  fixes a :: real
  assumes "0 \<le> a" "a \<le> 1" "a - a^3/6 + a^5/120 + a^7/5040 < 1/2"
  shows "6 * a < pi"
proof (rule ccontr)
  assume "\<not> 6 * a < pi"
  then have le: "pi / 6 \<le> a" by simp
  have "sin (pi / 6) \<le> sin a"
    using le pi_ge_two assms(2) by (intro sin_monotone_2pi_le) auto
  then have "1 / 2 \<le> sin a" by (simp only: sin_30)
  then show False using sin_upper [OF assms(1)] assms(3) by linarith
qed

lemma pi_upper_aux:
  fixes b :: real
  assumes "0 \<le> b" "1/2 < b - b^3/6 + b^5/120 - b^7/5040"
  shows "pi < 6 * b"
proof (rule ccontr)
  assume "\<not> pi < 6 * b"
  then have le: "b \<le> pi / 6" by simp
  have "sin b \<le> sin (pi / 6)"
    using le assms(1) pi_gt_zero by (intro sin_monotone_2pi_le) auto
  then have "sin b \<le> 1 / 2" by (simp only: sin_30)
  then show False using sin_lower [OF assms(1)] assms(2) by linarith
qed

lemma pi_lower: "3.14148 < pi"
  using pi_lower_aux [of "0.52358"] by (simp add: power_numeral_reduce)

lemma pi_upper: "pi < 3.14166"
  using pi_upper_aux [of "0.52361"] by (simp add: power_numeral_reduce)

section \<open>What the loop computes\<close>

lemma passo_snd: "snd (passo cv fmt g (img, ps) d) = ps @ [previsao_de g d]"
  by (simp add: passo_def previsao_de_def Let_def split: prod.splits)

lemma laco_snd: "snd (laco cv fmt g st ds) = snd st @ map (previsao_de g) ds"
proof (induction ds arbitrary: st)
  case Nil
  show ?case by simp
next
  case (Cons d ds)
  obtain img ps where st: "st = (img, ps)" by (cases st)
  show ?case by (simp add: Cons.IH st passo_snd)
qed

lemma estimar_massa_snd:
  "snd (estimar_massa cv fmt modelo g imagem) = map (previsao_de g) (modelo imagem)"
  by (simp add: estimar_massa_def laco_snd)

lemma diametro_previsao_de:
  "diametro_m (previsao_de g d) = real_of_int (largura d) * FATOR_CONVERSAO g"
  by (simp add: previsao_de_def calculo_def largura_def Let_def split: prod.splits)

lemma massa_previsao_de:
  "massa_kg (previsao_de g d) =
   DENSIDADE_MADEIRA g * (pi * (real_of_int (largura d) * FATOR_CONVERSAO g / 2)\<^sup>2 * COMPRIMENTO_TORA g)"
  by (simp add: previsao_de_def calculo_def largura_def Let_def split: prod.splits)

section \<open>The claims\<close>

lemma previsao_de_spec:
  "COMPRIMENTO_TORA g = 2 \<Longrightarrow>
   previsao_de g d = spec_measurement (FATOR_CONVERSAO g) (DENSIDADE_MADEIRA g) (caixa d) (conf d)"
  by (simp add: previsao_de_def spec_measurement_def calculo_def Let_def split: prod.splits)

text \<open>
  Claim C1. With the log length at its fixed value of 2.0, the list that
  \<open>estimar_massa\<close> returns is, detection by detection, the Measurement of the
  closed-form model: the width is \<open>x2 - x1\<close>, the diameter the width times the
  conversion factor, the radius half the diameter, the volume \<open>pi\<close> times the squared
  radius times 2.0, and the mass the density times the volume.
\<close>

theorem estimar_massa_closed_form:
  assumes "COMPRIMENTO_TORA g = 2"
  shows "snd (estimar_massa cv fmt modelo g imagem) =
         map (\<lambda>d. spec_measurement (FATOR_CONVERSAO g) (DENSIDADE_MADEIRA g) (caixa d) (conf d))
           (modelo imagem)"
  by (simp add: estimar_massa_snd previsao_de_spec [OF assms])

theorem estimar_massa_closed_form_witness:
  "COMPRIMENTO_TORA constantes = 2 \<and>
   snd (estimar_massa cv_ex fmt_ex (modelo_ex [det_ex]) constantes img_ex) =
     [\<lparr>bbox = [100, 100, 200, 150], diametro_m = 1 / 5, massa_kg = 12 * pi, confianca = 9 / 10\<rparr>]"
  using estimar_massa_closed_form [of constantes cv_ex fmt_ex "modelo_ex [det_ex]" img_ex]
  by (simp add: constantes_def modelo_ex_def det_ex_def spec_measurement_def caixa_def py_int_def
      power2_eq_square)

lemma caixa_det_ex: "caixa det_ex = (100, 100, 200, 150)"
  by (simp add: caixa_def det_ex_def py_int_def)

lemma calculo_constantes:
  "calculo constantes 100 200 = (100, 0.2, 0.1, pi * 0.01 * 2, 600 * (pi * 0.01 * 2))"
  by (simp add: calculo_def constantes_def Let_def power2_eq_square)

text \<open>
  Claim C2. Scenario 1: for the box (100, 100, 200, 150) under the constants 0.002, 600
  and 2.0 the local variables are the width 100, the diameter 0.2, the radius 0.1, the
  volume \<open>pi * 0.01 * 2\<close> and the mass 600 times that volume; the emitted Measurement
  carries that diameter and mass; the volume rounds to 0.0628 and the mass to 37.7.
\<close>

theorem scenario_1:
  "caixa det_ex = (100, 100, 200, 150) \<and>
   calculo constantes 100 200 = (100, 0.2, 0.1, pi * 0.01 * 2, 600 * (pi * 0.01 * 2)) \<and>
   snd (estimar_massa cv fmt (modelo_ex [det_ex]) constantes imagem) =
     [\<lparr>bbox = [100, 100, 200, 150], diametro_m = 0.2, massa_kg = 600 * (pi * 0.01 * 2),
       confianca = 0.9\<rparr>] \<and>
   \<bar>pi * 0.01 * 2 - 0.0628\<bar> < 0.00005 \<and>
   \<bar>600 * (pi * 0.01 * 2) - 37.7\<bar> < 0.05"
proof -
  have "snd (estimar_massa cv fmt (modelo_ex [det_ex]) constantes imagem) =
     [\<lparr>bbox = [100, 100, 200, 150], diametro_m = 0.2, massa_kg = 600 * (pi * 0.01 * 2),
       confianca = 0.9\<rparr>]"
    by (simp add: estimar_massa_snd modelo_ex_def previsao_de_def caixa_det_ex calculo_constantes)
       (simp add: det_ex_def)
  moreover have "\<bar>pi * 0.01 * 2 - 0.0628\<bar> < (0.00005::real)"
    using pi_lower pi_upper by (simp add: abs_less_iff)
  moreover have "\<bar>600 * (pi * 0.01 * 2) - 37.7\<bar> < (0.05::real)"
    using pi_lower pi_upper by (simp add: abs_less_iff)
  ultimately show ?thesis using caixa_det_ex calculo_constantes by blast
qed

text \<open>
  Claim C9. When the detector reports no box, \<open>estimar_massa\<close> returns the input
  image unchanged and an empty list of Measurements.
\<close>

theorem empty_detections:
  "modelo imagem = [] \<Longrightarrow> estimar_massa cv fmt modelo g imagem = (imagem, [])"
  by (simp add: estimar_massa_def)

theorem empty_detections_witness:
  "modelo_ex [] img_pintada = [] \<and>
   estimar_massa cv_ex fmt_ex (modelo_ex []) constantes img_pintada = (img_pintada, [])"
  using empty_detections [of "modelo_ex []" img_pintada cv_ex fmt_ex constantes]
  by (simp add: modelo_ex_def)

lemma largura_det_zero: "largura det_zero = 0"
  by (simp add: largura_def caixa_def det_zero_def py_int_def)

lemma largura_det_neg: "largura det_neg = - 100"
  by (simp add: largura_def caixa_def det_neg_def py_int_def)

lemma largura_det_ex: "largura det_ex = 100"
  by (simp add: largura_def caixa_def det_ex_def py_int_def)

lemma bbox_previsao_de:
  "bbox (previsao_de g d) = (case caixa d of (x1, y1, x2, y2) \<Rightarrow> [x1, y1, x2, y2])"
  by (simp add: previsao_de_def split: prod.splits)

lemma confianca_previsao_de: "confianca (previsao_de g d) = conf d"
  by (simp add: previsao_de_def split: prod.splits)

text \<open>
  Claim C3 says that a detection whose width is zero or negative is skipped. The code
  has no such guard: the box (100, 100, 100, 150) of width zero gets a Measurement, of
  diameter and mass zero.
\<close>

theorem degenerate_box_counterexample:
  "largura det_zero \<le> 0 \<and>
   snd (estimar_massa cv_ex fmt_ex (modelo_ex [det_zero]) constantes img_ex) =
     [\<lparr>bbox = [100, 100, 100, 150], diametro_m = 0, massa_kg = 0, confianca = 9 / 10\<rparr>]"
proof
  show "largura det_zero \<le> 0" by (simp add: largura_det_zero)
  show "snd (estimar_massa cv_ex fmt_ex (modelo_ex [det_zero]) constantes img_ex) =
     [\<lparr>bbox = [100, 100, 100, 150], diametro_m = 0, massa_kg = 0, confianca = 9 / 10\<rparr>]"
    by (simp add: estimar_massa_snd modelo_ex_def previsao_de_def calculo_def
        caixa_def det_zero_def py_int_def constantes_def)
qed

text \<open>
  Claim C3, as the code has it. A detection whose width is zero or negative is not
  skipped: the list returned has a Measurement at the position of that detection,
  carrying its box, its confidence and the diameter \<open>width * factor\<close>.
\<close>

theorem degenerate_box_not_skipped:
  assumes "i < length (modelo imagem)" "largura (modelo imagem ! i) \<le> 0"
  shows "i < length (snd (estimar_massa cv fmt modelo g imagem)) \<and>
         bbox (snd (estimar_massa cv fmt modelo g imagem) ! i) =
           (case caixa (modelo imagem ! i) of (x1, y1, x2, y2) \<Rightarrow> [x1, y1, x2, y2]) \<and>
         confianca (snd (estimar_massa cv fmt modelo g imagem) ! i) = conf (modelo imagem ! i) \<and>
         diametro_m (snd (estimar_massa cv fmt modelo g imagem) ! i) =
           real_of_int (largura (modelo imagem ! i)) * FATOR_CONVERSAO g"
  using assms(1)
  by (simp add: estimar_massa_snd bbox_previsao_de confianca_previsao_de diametro_previsao_de)

theorem degenerate_box_not_skipped_witness:
  "(0::nat) < length (modelo_ex [det_zero] img_ex) \<and> largura (modelo_ex [det_zero] img_ex ! 0) \<le> 0 \<and>
   0 < length (snd (estimar_massa cv_ex fmt_ex (modelo_ex [det_zero]) constantes img_ex)) \<and>
   bbox (snd (estimar_massa cv_ex fmt_ex (modelo_ex [det_zero]) constantes img_ex) ! 0) =
     [100, 100, 100, 150] \<and>
   confianca (snd (estimar_massa cv_ex fmt_ex (modelo_ex [det_zero]) constantes img_ex) ! 0) = 9 / 10 \<and>
   diametro_m (snd (estimar_massa cv_ex fmt_ex (modelo_ex [det_zero]) constantes img_ex) ! 0) = 0"
  using degenerate_box_not_skipped [of 0 "modelo_ex [det_zero]" img_ex cv_ex fmt_ex constantes]
  by (simp add: modelo_ex_def largura_det_zero) (simp add: caixa_def det_zero_def py_int_def)

lemma script_saida:
  "snd (script cv fmt modelo g (Some imagem) tipo_madeira) =
   Some (estimar_massa cv fmt modelo constantes imagem)"
  by (cases g) (simp add: script_def constantes_def Let_def)

text \<open>
  Claim C4 says that the estimation reads the density the user selected. In a run of the
  script with an uploaded image holding the box of Scenario 1 and the selection
  "Carvalho (700 kg/m3)", whatever the globals held before, the Measurement has the mass
  \<open>12 * pi\<close> of the density 600; the selection reaches \<open>DENSIDADE_MADEIRA\<close> only
  after the call, and the density 700 would give another mass.
\<close>

theorem script_carvalho_uses_600:
  "map_option snd (snd (script cv fmt (modelo_ex [det_ex]) g (Some imagem) Carvalho)) =
     Some [\<lparr>bbox = [100, 100, 200, 150], diametro_m = 1 / 5, massa_kg = 12 * pi,
            confianca = 9 / 10\<rparr>] \<and>
   DENSIDADE_MADEIRA (fst (script cv fmt (modelo_ex [det_ex]) g (Some imagem) Carvalho)) = 700 \<and>
   12 * pi \<noteq> 700 * (pi * (1 / 10)\<^sup>2 * 2)"
  by (simp add: script_saida estimar_massa_snd modelo_ex_def previsao_de_def calculo_def
      caixa_def det_ex_def py_int_def constantes_def power2_eq_square)
     (simp add: script_def Let_def)

text \<open>
  Claim C5. \<open>estimar_massa\<close> returns as many Measurements as the detector reported
  detections, and the diameter and the mass of a Measurement depend on nothing but its
  detection and the three calibration globals: two calls under the same globals, with
  any images, drawing functions, formatting and neighbouring detections, give the same
  diameter and mass to equal detections, at whatever positions they stand.
\<close>

theorem measurements_count_and_determinism:
  "length (snd (estimar_massa cv fmt modelo g imagem)) = length (modelo imagem) \<and>
   (\<forall>i j. i < length (modelo imagem) \<and> j < length (modelo' imagem') \<and>
          modelo imagem ! i = modelo' imagem' ! j \<longrightarrow>
      diametro_m (snd (estimar_massa cv fmt modelo g imagem) ! i) =
        diametro_m (snd (estimar_massa cv' fmt' modelo' g imagem') ! j) \<and>
      massa_kg (snd (estimar_massa cv fmt modelo g imagem) ! i) =
        massa_kg (snd (estimar_massa cv' fmt' modelo' g imagem') ! j))"
  by (simp add: estimar_massa_snd)

theorem measurements_count_and_determinism_witness:
  "length (snd (estimar_massa cv_ex fmt_ex (modelo_ex [det_ex, det_zero]) constantes img_ex)) = 2 \<and>
   diametro_m (snd (estimar_massa cv_ex fmt_ex (modelo_ex [det_ex, det_zero]) constantes img_ex) ! 0) =
     diametro_m (snd (estimar_massa cv_ex fmt_ex (modelo_ex [det_neg, det_ex]) constantes img_pintada) ! 1) \<and>
   massa_kg (snd (estimar_massa cv_ex fmt_ex (modelo_ex [det_ex, det_zero]) constantes img_ex) ! 0) =
     massa_kg (snd (estimar_massa cv_ex fmt_ex (modelo_ex [det_neg, det_ex]) constantes img_pintada) ! 1)"
  using measurements_count_and_determinism
    [of cv_ex fmt_ex "modelo_ex [det_ex, det_zero]" constantes img_ex
        "modelo_ex [det_neg, det_ex]" img_pintada cv_ex fmt_ex]
  by (simp add: modelo_ex_def)

text \<open>
  Claim C6. A detection of width zero gets the mass zero, which is not greater than
  zero.
\<close>

theorem zero_width_zero_mass:
  assumes "i < length (modelo imagem)" "largura (modelo imagem ! i) = 0"
  shows "massa_kg (snd (estimar_massa cv fmt modelo g imagem) ! i) = 0 \<and>
         \<not> 0 < massa_kg (snd (estimar_massa cv fmt modelo g imagem) ! i)"
  using assms by (simp add: estimar_massa_snd massa_previsao_de)

theorem zero_width_zero_mass_witness:
  "(0::nat) < length (modelo_ex [det_zero] img_ex) \<and> largura (modelo_ex [det_zero] img_ex ! 0) = 0 \<and>
   massa_kg (snd (estimar_massa cv_ex fmt_ex (modelo_ex [det_zero]) constantes img_ex) ! 0) = 0 \<and>
   \<not> 0 < massa_kg (snd (estimar_massa cv_ex fmt_ex (modelo_ex [det_zero]) constantes img_ex) ! 0)"
  using zero_width_zero_mass [of 0 "modelo_ex [det_zero]" img_ex cv_ex fmt_ex constantes]
  by (simp add: modelo_ex_def largura_det_zero)

lemma massa_mono_largura:
  fixes f l r :: real and w1 w2 :: int
  assumes "0 < f" "0 < l" "0 < r" "0 < w1" "w1 < w2"
  shows "r * (pi * (real_of_int w1 * f / 2)\<^sup>2 * l) < r * (pi * (real_of_int w2 * f / 2)\<^sup>2 * l)"
proof -
  have "0 < real_of_int w1 * f / 2" using assms by simp
  moreover have "real_of_int w1 * f / 2 < real_of_int w2 * f / 2" using assms by simp
  ultimately have "(real_of_int w1 * f / 2)\<^sup>2 < (real_of_int w2 * f / 2)\<^sup>2"
    by (intro power_strict_mono) simp_all
  then show ?thesis using assms by simp
qed

lemma massa_mono_densidade:
  fixes f l r1 r2 :: real and w :: int
  assumes "0 < f" "0 < l" "0 < w" "r1 < r2"
  shows "r1 * (pi * (real_of_int w * f / 2)\<^sup>2 * l) < r2 * (pi * (real_of_int w * f / 2)\<^sup>2 * l)"
proof -
  have "0 < (real_of_int w * f / 2)\<^sup>2" using assms by simp
  then have "0 < pi * (real_of_int w * f / 2)\<^sup>2 * l" using assms by simp
  then show ?thesis using assms(4) by (rule mult_strict_right_mono [rotated])
qed

text \<open>
  Claim C7. Under a positive factor, log length and density, the mass of a detection of
  positive width is smaller than the mass of any wider detection under the same globals,
  and smaller than its own mass under any greater density.
\<close>

theorem massa_strictly_increasing:
  assumes "0 < FATOR_CONVERSAO g" "0 < COMPRIMENTO_TORA g" "0 < DENSIDADE_MADEIRA g"
    and "i < length (modelo imagem)" "0 < largura (modelo imagem ! i)"
  shows "(\<forall>j. j < length (modelo' imagem') \<and>
              largura (modelo imagem ! i) < largura (modelo' imagem' ! j) \<longrightarrow>
            massa_kg (snd (estimar_massa cv fmt modelo g imagem) ! i) <
            massa_kg (snd (estimar_massa cv' fmt' modelo' g imagem') ! j)) \<and>
         (\<forall>r. DENSIDADE_MADEIRA g < r \<longrightarrow>
            massa_kg (snd (estimar_massa cv fmt modelo g imagem) ! i) <
            massa_kg (snd (estimar_massa cv fmt modelo (g\<lparr>DENSIDADE_MADEIRA := r\<rparr>) imagem) ! i))"
proof (intro conjI allI impI)
  fix j
  assume j: "j < length (modelo' imagem') \<and>
             largura (modelo imagem ! i) < largura (modelo' imagem' ! j)"
  show "massa_kg (snd (estimar_massa cv fmt modelo g imagem) ! i) <
        massa_kg (snd (estimar_massa cv' fmt' modelo' g imagem') ! j)"
    using j assms by (simp add: estimar_massa_snd massa_previsao_de massa_mono_largura)
next
  fix r
  assume r: "DENSIDADE_MADEIRA g < r"
  show "massa_kg (snd (estimar_massa cv fmt modelo g imagem) ! i) <
        massa_kg (snd (estimar_massa cv fmt modelo (g\<lparr>DENSIDADE_MADEIRA := r\<rparr>) imagem) ! i)"
    using r assms massa_mono_densidade [of "FATOR_CONVERSAO g" "COMPRIMENTO_TORA g"
        "largura (modelo imagem ! i)" "DENSIDADE_MADEIRA g" r]
    by (simp add: estimar_massa_snd massa_previsao_de)
qed

lemma largura_det_largo: "largura det_largo = 200"
  by (simp add: largura_def caixa_def det_largo_def py_int_def)

theorem massa_strictly_increasing_witness:
  "0 < FATOR_CONVERSAO constantes \<and> 0 < COMPRIMENTO_TORA constantes \<and>
   0 < DENSIDADE_MADEIRA constantes \<and> (0::nat) < length (modelo_ex [det_ex] img_ex) \<and>
   0 < largura (modelo_ex [det_ex] img_ex ! 0) \<and>
   largura (modelo_ex [det_ex] img_ex ! 0) < largura (modelo_ex [det_largo] img_ex ! 0) \<and>
   massa_kg (snd (estimar_massa cv_ex fmt_ex (modelo_ex [det_ex]) constantes img_ex) ! 0) <
   massa_kg (snd (estimar_massa cv_ex fmt_ex (modelo_ex [det_largo]) constantes img_ex) ! 0) \<and>
   massa_kg (snd (estimar_massa cv_ex fmt_ex (modelo_ex [det_ex]) constantes img_ex) ! 0) <
   massa_kg (snd (estimar_massa cv_ex fmt_ex (modelo_ex [det_ex])
     (constantes\<lparr>DENSIDADE_MADEIRA := 700\<rparr>) img_ex) ! 0)"
proof -
  have h: "0 < FATOR_CONVERSAO constantes" "0 < COMPRIMENTO_TORA constantes"
    "0 < DENSIDADE_MADEIRA constantes" "(0::nat) < length (modelo_ex [det_ex] img_ex)"
    "0 < largura (modelo_ex [det_ex] img_ex ! 0)"
    by (simp_all add: constantes_def modelo_ex_def largura_det_ex)
  have w: "largura (modelo_ex [det_ex] img_ex ! 0) < largura (modelo_ex [det_largo] img_ex ! 0)"
    by (simp add: modelo_ex_def largura_det_ex largura_det_largo)
  have d: "DENSIDADE_MADEIRA constantes < 700" by (simp add: constantes_def)
  note t = massa_strictly_increasing [where g = constantes and i = 0
      and modelo = "modelo_ex [det_ex]" and imagem = img_ex
      and modelo' = "modelo_ex [det_largo]" and imagem' = img_ex
      and cv = cv_ex and fmt = fmt_ex and cv' = cv_ex and fmt' = fmt_ex, OF h]
  have "massa_kg (snd (estimar_massa cv_ex fmt_ex (modelo_ex [det_ex]) constantes img_ex) ! 0) <
        massa_kg (snd (estimar_massa cv_ex fmt_ex (modelo_ex [det_largo]) constantes img_ex) ! 0)"
    using t w by (simp add: modelo_ex_def)
  moreover have "massa_kg (snd (estimar_massa cv_ex fmt_ex (modelo_ex [det_ex]) constantes img_ex) ! 0) <
   massa_kg (snd (estimar_massa cv_ex fmt_ex (modelo_ex [det_ex])
     (constantes\<lparr>DENSIDADE_MADEIRA := 700\<rparr>) img_ex) ! 0)"
    using t d by blast
  ultimately show ?thesis using h w by blast
qed

text \<open>
  Claim C8. Multiplying the conversion factor by \<open>c\<close> multiplies the diameter of
  every Measurement by \<open>c\<close>; multiplying the density by \<open>c\<close> multiplies its mass by
  \<open>c\<close>; and Scenario 2, the box of Scenario 1 under the density 700, gives the mass
  \<open>700 * (pi * 0.01 * 2)\<close>, which rounds to 44.0.
\<close>

theorem linear_scaling:
  "(i < length (modelo imagem) \<longrightarrow>
      diametro_m (snd (estimar_massa cv fmt modelo
        (g\<lparr>FATOR_CONVERSAO := c * FATOR_CONVERSAO g\<rparr>) imagem) ! i) =
      c * diametro_m (snd (estimar_massa cv fmt modelo g imagem) ! i)) \<and>
   (i < length (modelo imagem) \<longrightarrow>
      massa_kg (snd (estimar_massa cv fmt modelo
        (g\<lparr>DENSIDADE_MADEIRA := c * DENSIDADE_MADEIRA g\<rparr>) imagem) ! i) =
      c * massa_kg (snd (estimar_massa cv fmt modelo g imagem) ! i)) \<and>
   snd (estimar_massa cv fmt (modelo_ex [det_ex]) (constantes\<lparr>DENSIDADE_MADEIRA := 700\<rparr>) imagem) =
     [\<lparr>bbox = [100, 100, 200, 150], diametro_m = 0.2, massa_kg = 700 * (pi * 0.01 * 2),
       confianca = 0.9\<rparr>] \<and>
   \<bar>700 * (pi * 0.01 * 2) - 44.0\<bar> < 0.05"
proof (intro conjI impI)
  assume "i < length (modelo imagem)"
  then show "diametro_m (snd (estimar_massa cv fmt modelo
        (g\<lparr>FATOR_CONVERSAO := c * FATOR_CONVERSAO g\<rparr>) imagem) ! i) =
      c * diametro_m (snd (estimar_massa cv fmt modelo g imagem) ! i)"
    by (simp add: estimar_massa_snd diametro_previsao_de)
next
  assume "i < length (modelo imagem)"
  then show "massa_kg (snd (estimar_massa cv fmt modelo
        (g\<lparr>DENSIDADE_MADEIRA := c * DENSIDADE_MADEIRA g\<rparr>) imagem) ! i) =
      c * massa_kg (snd (estimar_massa cv fmt modelo g imagem) ! i)"
    by (simp add: estimar_massa_snd massa_previsao_de)
next
  show "snd (estimar_massa cv fmt (modelo_ex [det_ex]) (constantes\<lparr>DENSIDADE_MADEIRA := 700\<rparr>) imagem) =
     [\<lparr>bbox = [100, 100, 200, 150], diametro_m = 0.2, massa_kg = 700 * (pi * 0.01 * 2),
       confianca = 0.9\<rparr>]"
    by (simp add: estimar_massa_snd modelo_ex_def previsao_de_def calculo_def
        caixa_def det_ex_def py_int_def constantes_def power2_eq_square)
next
  show "\<bar>700 * (pi * 0.01 * 2) - 44.0\<bar> < (0.05::real)"
    using pi_lower pi_upper by (simp add: abs_less_iff)
qed

theorem linear_scaling_witness:
  "(0::nat) < length (modelo_ex [det_ex] img_ex) \<and>
   diametro_m (snd (estimar_massa cv_ex fmt_ex (modelo_ex [det_ex])
      (constantes\<lparr>FATOR_CONVERSAO := 3 * FATOR_CONVERSAO constantes\<rparr>) img_ex) ! 0) =
   3 * diametro_m (snd (estimar_massa cv_ex fmt_ex (modelo_ex [det_ex]) constantes img_ex) ! 0) \<and>
   massa_kg (snd (estimar_massa cv_ex fmt_ex (modelo_ex [det_ex])
      (constantes\<lparr>DENSIDADE_MADEIRA := 3 * DENSIDADE_MADEIRA constantes\<rparr>) img_ex) ! 0) =
   3 * massa_kg (snd (estimar_massa cv_ex fmt_ex (modelo_ex [det_ex]) constantes img_ex) ! 0)"
  using linear_scaling [where i = 0 and modelo = "modelo_ex [det_ex]" and imagem = img_ex
      and cv = cv_ex and fmt = fmt_ex and g = constantes and c = 3]
  by (simp add: modelo_ex_def)

text \<open>
  Claim C10. Under a positive factor, log length and density, a detection of negative
  width still gets a Measurement, of negative diameter and strictly positive mass, and
  the mass of every Measurement is at least zero.
\<close>

theorem negative_width_positive_mass:
  assumes "0 < FATOR_CONVERSAO g" "0 < COMPRIMENTO_TORA g" "0 < DENSIDADE_MADEIRA g"
    and "i < length (modelo imagem)"
  shows "(largura (modelo imagem ! i) < 0 \<longrightarrow>
            i < length (snd (estimar_massa cv fmt modelo g imagem)) \<and>
            diametro_m (snd (estimar_massa cv fmt modelo g imagem) ! i) < 0 \<and>
            0 < massa_kg (snd (estimar_massa cv fmt modelo g imagem) ! i)) \<and>
         0 \<le> massa_kg (snd (estimar_massa cv fmt modelo g imagem) ! i)"
proof -
  let ?w = "real_of_int (largura (modelo imagem ! i))"
  have m: "massa_kg (snd (estimar_massa cv fmt modelo g imagem) ! i) =
      DENSIDADE_MADEIRA g * (pi * (?w * FATOR_CONVERSAO g / 2)\<^sup>2 * COMPRIMENTO_TORA g)"
    using assms(4) by (simp add: estimar_massa_snd massa_previsao_de)
  have d: "diametro_m (snd (estimar_massa cv fmt modelo g imagem) ! i) = ?w * FATOR_CONVERSAO g"
    using assms(4) by (simp add: estimar_massa_snd diametro_previsao_de)
  have nonneg: "0 \<le> massa_kg (snd (estimar_massa cv fmt modelo g imagem) ! i)"
    using assms(1-3) by (simp add: m)
  have neg: "diametro_m (snd (estimar_massa cv fmt modelo g imagem) ! i) < 0 \<and>
             0 < massa_kg (snd (estimar_massa cv fmt modelo g imagem) ! i)"
    if "largura (modelo imagem ! i) < 0"
  proof -
    have w: "?w < 0" using that by simp
    then have "?w * FATOR_CONVERSAO g < 0" using assms(1) by (simp add: mult_neg_pos)
    moreover have "0 < (?w * FATOR_CONVERSAO g / 2)\<^sup>2" using w assms(1) by simp
    ultimately show ?thesis using assms(2,3) by (simp add: m d)
  qed
  show ?thesis using nonneg neg assms(4) by (simp add: estimar_massa_snd)
qed

theorem negative_width_positive_mass_witness:
  "0 < FATOR_CONVERSAO constantes \<and> 0 < COMPRIMENTO_TORA constantes \<and>
   0 < DENSIDADE_MADEIRA constantes \<and> (0::nat) < length (modelo_ex [det_neg] img_ex) \<and>
   largura (modelo_ex [det_neg] img_ex ! 0) < 0 \<and>
   diametro_m (snd (estimar_massa cv_ex fmt_ex (modelo_ex [det_neg]) constantes img_ex) ! 0) < 0 \<and>
   0 < massa_kg (snd (estimar_massa cv_ex fmt_ex (modelo_ex [det_neg]) constantes img_ex) ! 0)"
proof -
  have h: "0 < FATOR_CONVERSAO constantes" "0 < COMPRIMENTO_TORA constantes"
    "0 < DENSIDADE_MADEIRA constantes" "(0::nat) < length (modelo_ex [det_neg] img_ex)"
    by (simp_all add: constantes_def modelo_ex_def)
  have w: "largura (modelo_ex [det_neg] img_ex ! 0) < 0"
    by (simp add: modelo_ex_def largura_det_neg)
  show ?thesis
    using negative_width_positive_mass [where g = constantes and i = 0
        and modelo = "modelo_ex [det_neg]" and imagem = img_ex and cv = cv_ex and fmt = fmt_ex, OF h]
      h w by simp
qed

end
